theory Spec2Isabelle
  imports Complex_Main "HOL-Library.Sublist" "HOL-Library.Log_Nat"
begin

section \<open>Homepage: the analyze form\<close>

text \<open>
  JavaScript strings are sequences of UTF-16 code units; a code unit is modelled by its
  number. \<open>ustr\<close> embeds an ASCII literal of the source.
\<close>

type_synonym ustring = "nat list"

definition ustr :: "string \<Rightarrow> ustring" where
  "ustr s = map of_char s"

text \<open>
  \<open>String.prototype.trim\<close> strips ECMAScript WhiteSpace and LineTerminator code points
  from both ends: TAB, LF, VT, FF, CR, SPACE, NBSP, U+1680, U+2000..U+200A, U+2028,
  U+2029, U+202F, U+205F, U+3000 and U+FEFF.
\<close>

definition is_white_space :: "nat \<Rightarrow> bool" where
  "is_white_space c \<longleftrightarrow>
     c \<in> set [9, 10, 11, 12, 13, 32, 160, 5760, 8232, 8233, 8239, 8287, 12288, 65279]
     \<or> (8192 \<le> c \<and> c \<le> 8202)"

definition trim :: "ustring \<Rightarrow> ustring" where
  "trim s = rev (dropWhile is_white_space (rev (dropWhile is_white_space s)))"

text \<open>
  \<open>handleAnalyze\<close> of the Homepage component, as the list of \<open>navigate\<close> calls it makes
  for the current value of the \<open>username\<close> state. A string is truthy when it is not empty.
  \<^verbatim>\<open>if (username.trim()) { navigate(`/dashboard/${username.trim()}`); }\<close>
\<close>

definition handleAnalyze :: "ustring \<Rightarrow> ustring list" where
  "handleAnalyze username =
     (if trim username \<noteq> [] then [ustr ''/dashboard/'' @ trim username] else [])"

text \<open>\<open>handleExampleClick\<close> navigates without any check.\<close>

definition handleExampleClick :: "ustring \<Rightarrow> ustring list" where
  "handleExampleClick exampleUsername = [ustr ''/dashboard/'' @ exampleUsername]"


section \<open>ErrorBoundary\<close>

record eb_state =
  hasError :: bool

datatype 'n rendered = Fallback | Children 'n

text \<open>The constructor: \<^verbatim>\<open>this.state = { hasError: false }\<close>.\<close>

definition eb_constructor :: eb_state where
  "eb_constructor = \<lparr>hasError = False\<rparr>"

definition getDerivedStateFromError :: eb_state where
  "getDerivedStateFromError = \<lparr>hasError = True\<rparr>"

definition render :: "eb_state \<Rightarrow> 'n \<Rightarrow> 'n rendered" where
  "render st children = (if hasError st then Fallback else Children children)"

text \<open>
  What happens to a mounted boundary: a descendant throws while rendering (React then
  merges the result of \<open>getDerivedStateFromError\<close> into the state and calls
  \<open>componentDidCatch\<close>, which only logs), or the boundary is rendered again with new
  children. The component never calls \<open>setState\<close> itself; the fallback's button reloads
  the page, which ends the component's life.
\<close>

datatype 'n eb_event = ChildThrew | Rerender 'n

fun eb_step :: "eb_state \<Rightarrow> 'n eb_event \<Rightarrow> eb_state" where
  "eb_step st ChildThrew = st\<lparr>hasError := hasError getDerivedStateFromError\<rparr>"
| "eb_step st (Rerender children) = st"


section \<open>Quality badges of Dashboard and RepoDetail\<close>

text \<open>
  \<^verbatim>\<open>colors[quality]\<close> on an object literal reads an own property first and then the
  prototype chain, here \<open>Object.prototype\<close>, whose members are functions (and, for
  \<open>__proto__\<close>, the prototype object itself): all truthy, none a string.
\<close>

datatype js_prop = Undefined | StringValue string | Inherited string

definition object_prototype_keys :: "string list" where
  "object_prototype_keys =
     [''constructor'', ''hasOwnProperty'', ''isPrototypeOf'', ''propertyIsEnumerable'',
      ''toLocaleString'', ''toString'', ''valueOf'', ''__proto__'',
      ''__defineGetter__'', ''__defineSetter__'', ''__lookupGetter__'', ''__lookupSetter__'']"

definition js_get :: "(string \<times> string) list \<Rightarrow> string \<Rightarrow> js_prop" where
  "js_get obj key =
     (case map_of obj key of
        Some v \<Rightarrow> StringValue v
      | None \<Rightarrow> if key \<in> set object_prototype_keys then Inherited key else Undefined)"

fun js_truthy :: "js_prop \<Rightarrow> bool" where
  "js_truthy Undefined = False"
| "js_truthy (StringValue s) = (s \<noteq> [])"
| "js_truthy (Inherited k) = True"

definition badge_colors :: "(string \<times> string) list" where
  "badge_colors =
     [(''excellent'', ''bg-green-100 text-green-800''),
      (''good'', ''bg-blue-100 text-blue-800''),
      (''basic'', ''bg-yellow-100 text-yellow-800''),
      (''minimal'', ''bg-orange-100 text-orange-800''),
      (''none'', ''bg-red-100 text-red-800'')]"

text \<open>\<^verbatim>\<open>return colors[quality] || colors.none;\<close>\<close>

definition getQualityBadge :: "string \<Rightarrow> js_prop" where
  "getQualityBadge quality =
     (let v = js_get badge_colors quality
      in if js_truthy v then v else js_get badge_colors ''none'')"

definition quality_colors :: "(string \<times> string) list" where
  "quality_colors =
     [(''excellent'', ''text-green-600 bg-green-100''),
      (''good'', ''text-blue-600 bg-blue-100''),
      (''basic'', ''text-yellow-600 bg-yellow-100''),
      (''minimal'', ''text-orange-600 bg-orange-100''),
      (''none'', ''text-red-600 bg-red-100'')]"

definition getQualityColor :: "string \<Rightarrow> js_prop" where
  "getQualityColor quality =
     (let v = js_get quality_colors quality
      in if js_truthy v then v else js_get quality_colors ''none'')"

definition quality_tiers :: "string list" where
  "quality_tiers = [''none'', ''minimal'', ''basic'', ''good'', ''excellent'']"


section \<open>The API client\<close>

text \<open>
  A JSON value as \<open>response.json()\<close> parses it. An object is the list of its members
  in the order of the text; of a repeated key the last member counts, as in
  \<open>JSON.parse\<close>. A number is a double; the client never computes with one,
  so it is given by the two things the client can observe of it: whether it is zero
  (the only falsy numbers a JSON text can give), and the text that \<open>ToString\<close> prints
  for it.
\<close>

datatype json =
    JNull
  | JBool bool
  | JNum (is_zero: bool) (number_text: string)
  | JStr string
  | JArr "json list"
  | JObj "(string \<times> json) list"

text \<open>What an operation can throw (reject with).\<close>

datatype js_error =
    Error string        \<comment> \<open>\<^verbatim>\<open>new Error(message)\<close>\<close>
  | FetchFailed         \<comment> \<open>\<^verbatim>\<open>fetch\<close> rejected: no response\<close>
  | BodyNotJson         \<comment> \<open>\<^verbatim>\<open>response.json()\<close> rejected\<close>
  | NullDereference     \<comment> \<open>TypeError: reading \<^verbatim>\<open>detail\<close> of \<^verbatim>\<open>null\<close>\<close>

text \<open>
  A response: its status and its body, \<open>None\<close> when the body is not valid JSON.
  \<open>response.ok\<close> is true for the statuses 200 to 299.
\<close>

record response =
  status :: nat
  body :: "json option"

definition ok :: "response \<Rightarrow> bool" where
  "ok r \<longleftrightarrow> 200 \<le> status r \<and> status r \<le> 299"




text \<open>
  Decimal digits of a natural number, as a template literal prints \<open>response.status\<close>
  (an integer far below \<open>10^21\<close>, which prints in plain decimal).
\<close>

definition digit_char :: "nat \<Rightarrow> char" where
  "digit_char d = ''0123456789'' ! d"

function show_nat :: "nat \<Rightarrow> string" where
  "show_nat n = (if n < 10 then [digit_char n] else show_nat (n div 10) @ [digit_char (n mod 10)])"
  by pat_completeness auto
termination
  by (relation "measure id") auto

declare show_nat.simps [simp del]

fun join_comma :: "string list \<Rightarrow> string" where
  "join_comma [] = []"
| "join_comma [s] = s"
| "join_comma (s # t # ss) = s @ CHR '','' # join_comma (t # ss)"

text \<open>
  \<open>ToString\<close>, which \<open>new Error(v)\<close> applies to its argument: an array joins its
  elements with commas (a \<open>null\<close> element prints as nothing), an object prints as
  \<open>[object Object]\<close>.
\<close>

fun js_to_string :: "json \<Rightarrow> string" where
  "js_to_string JNull = ''null''"
| "js_to_string (JBool b) = (if b then ''true'' else ''false'')"
| "js_to_string (JNum z t) = t"
| "js_to_string (JStr s) = s"
| "js_to_string (JArr vs) =
     join_comma (map (\<lambda>v. if v = JNull then [] else js_to_string v) vs)"
| "js_to_string (JObj kvs) = ''[object Object]''"

text \<open>\<open>ToBoolean\<close>, which \<open>||\<close> and \<open>if\<close> apply to a value.\<close>

fun truthy :: "json \<Rightarrow> bool" where
  "truthy JNull = False"
| "truthy (JBool b) = b"
| "truthy (JNum z t) = (\<not> z)"
| "truthy (JStr s) = (s \<noteq> [])"
| "truthy (JArr vs) = True"
| "truthy (JObj kvs) = True"

text \<open>
  \<open>error.detail\<close> on a value that is not \<open>null\<close>: the own property of an object,
  \<open>undefined\<close> (\<open>None\<close>) when it has none and on anything else (no prototype has a
  member of that name).
\<close>

fun detail_of :: "json \<Rightarrow> json option" where
  "detail_of (JObj kvs) = map_of (rev kvs) ''detail''"
| "detail_of v = None"

text \<open>
  What each of the four operations does with the response, in the same words:
  \<^verbatim>\<open>
  if (!response.ok) {
    const error = await response.json().catch(() => ({ detail: 'Unknown error' }));
    throw new Error(error.detail || `HTTP ${response.status}`);
  }
  return response.json();
  \<close>
  Reading \<open>detail\<close> of \<open>null\<close> throws a TypeError; \<open>||\<close> takes its right operand when
  the left one is \<open>undefined\<close> or falsy.
\<close>

definition read_response :: "response \<Rightarrow> js_error + json" where
  "read_response r =
     (if \<not> ok r then
        (let error = (case body r of
                        None \<Rightarrow> JObj [(''detail'', JStr ''Unknown error'')]
                      | Some v \<Rightarrow> v)
         in if error = JNull then Inl NullDereference
            else Inl (Error (js_to_string
              (case detail_of error of
                 None \<Rightarrow> JStr (''HTTP '' @ show_nat (status r))
               | Some detail \<Rightarrow>
                   if truthy detail then detail
                   else JStr (''HTTP '' @ show_nat (status r))))))
      else (case body r of None \<Rightarrow> Inl BodyNotJson | Some v \<Rightarrow> Inr v))"














section \<open>Dashboard: loading the enhancement plan\<close>

text \<open>
  The state of the Dashboard component. \<open>username\<close> is the route parameter
  (\<open>string | undefined\<close>); \<open>'a\<close> is the type of a PortfolioAnalysis. \<open>enhancement\<close>
  starts as \<open>null\<close> and then holds whatever \<open>enhancePortfolio\<close> returned, which is the
  parsed body of the response: the type annotation is not checked when the program
  runs.
\<close>

record 'a dashboard =
  username :: "string option"
  analysis :: "'a option"
  enhancement :: json
  loading :: bool
  error :: "string option"
  showEnhancement :: bool

text \<open>
  The component together with what it has done to the outside: the calls of
  \<open>enhancePortfolio\<close> it has made (by username), how many of them still await their
  response, and what it has written with \<open>console.error\<close>.
\<close>

record 'a world =
  component :: "'a dashboard"
  requests :: "string list"
  in_flight :: nat
  console :: "string list"

definition initial_dashboard :: "string option \<Rightarrow> 'a world" where
  "initial_dashboard u =
     \<lparr>component = \<lparr>username = u, analysis = None, enhancement = JNull, loading = True,
                    error = None, showEnhancement = False\<rparr>,
      requests = [], in_flight = 0, console = []\<rparr>"

text \<open>\<open>!username\<close>: the parameter is undefined or the empty string.\<close>

definition no_username :: "'a dashboard \<Rightarrow> bool" where
  "no_username c \<longleftrightarrow> (case username c of None \<Rightarrow> True | Some u \<Rightarrow> u = [])"

text \<open>
  \<open>handleLoadEnhancement\<close> is asynchronous: it runs up to the \<open>await\<close>, and resumes when
  the call has returned or thrown.
  \<^verbatim>\<open>
  if (!username || enhancement) return;
  try {
    const data = await enhancePortfolio(username);
    setEnhancement(data);
    setShowEnhancement(true);
  } catch (err) {
    console.error('Failed to load enhancement suggestions');
  }
  \<close>
  The guard tests whether \<open>enhancement\<close> is truthy.
\<close>

definition handleLoadEnhancement :: "'a world \<Rightarrow> 'a world" where
  "handleLoadEnhancement w =
     (case username (component w) of
        None \<Rightarrow> w
      | Some u \<Rightarrow>
          if u = [] \<or> truthy (enhancement (component w)) then w
          else w\<lparr>requests := requests w @ [u], in_flight := Suc (in_flight w)\<rparr>)"

definition handleLoadEnhancement_returned :: "json \<Rightarrow> 'a world \<Rightarrow> 'a world" where
  "handleLoadEnhancement_returned data w =
     w\<lparr>component := (component w)\<lparr>enhancement := data, showEnhancement := True\<rparr>,
       in_flight := in_flight w - 1\<rparr>"

definition handleLoadEnhancement_threw :: "'a world \<Rightarrow> 'a world" where
  "handleLoadEnhancement_threw w =
     w\<lparr>console := console w @ [''Failed to load enhancement suggestions''],
       in_flight := in_flight w - 1\<rparr>"

text \<open>
  The events that run the handler: a click on the button, and the end of a call that is
  in flight (with the parsed body, or with an error).
\<close>

datatype dashboard_event = Click | Returned json | Threw

fun dashboard_step :: "'a world \<Rightarrow> dashboard_event \<Rightarrow> 'a world" where
  "dashboard_step w Click = handleLoadEnhancement w"
| "dashboard_step w (Returned data) =
     (if in_flight w = 0 then w else handleLoadEnhancement_returned data w)"
| "dashboard_step w Threw = (if in_flight w = 0 then w else handleLoadEnhancement_threw w)"

text \<open>A plan as the backend sends it, for the examples.\<close>

definition example_plan :: json where
  "example_plan =
     JObj [(''current_score'', JNum False ''62''), (''potential_score'', JNum False ''85''),
           (''suggestions'', JObj [(''quick_wins'', JArr []), (''medium_term'', JArr []),
                                  (''long_term'', JArr [])]),
           (''priority_actions'', JArr [])]"


section \<open>RepoDetail: the language percentages\<close>

text \<open>
  A JavaScript number is a double: not a number, an infinity, or a finite value, which
  \<open>Finite\<close> carries exactly (a rational that a double can hold). The sign of a zero is
  not kept: the total below is never a negative zero, and no other step tells the two
  zeros apart.
\<close>

datatype js_number = NaN | PosInfinity | NegInfinity | Finite rat

text \<open>
  Rounding an exact result to the nearest double, ties to the even significand.
  \<open>ilog2 a\<close> is the binary exponent of a positive \<open>a\<close> (the floor of its logarithm),
  \<open>quantum a\<close> the spacing of the doubles around it: 53 significant bits, and
  \<open>2^-1074\<close> in the subnormal range.
\<close>

definition ilog2 :: "rat \<Rightarrow> int" where
  "ilog2 a = (if 1 \<le> a then bitlen \<lfloor>a\<rfloor> - 1 else - bitlen (\<lceil>1 / a\<rceil> - 1))"

definition quantum :: "rat \<Rightarrow> rat" where
  "quantum a = 2 powi (max (ilog2 a) (- 1022) - 52)"

definition round_half_even :: "rat \<Rightarrow> int" where
  "round_half_even x =
     (let n = \<lfloor>x\<rfloor>; d = x - of_int n
      in if d < 1 / 2 then n else if 1 / 2 < d then n + 1 else if even n then n else n + 1)"

definition round53 :: "rat \<Rightarrow> rat" where
  "round53 q =
     (if q = 0 then 0
      else sgn q * (of_int (round_half_even (\<bar>q\<bar> / quantum \<bar>q\<bar>)) * quantum \<bar>q\<bar>))"

text \<open>
  The double that an arithmetic operation returns for the exact result \<open>q\<close>: an
  infinity from half a spacing above the largest double, \<open>2^1024 - 2^970\<close>, on.
\<close>

definition fl :: "rat \<Rightarrow> js_number" where
  "fl q =
     (if 2 ^ 1024 - 2 ^ 970 \<le> \<bar>q\<bar> then (if 0 < q then PosInfinity else NegInfinity)
      else Finite (round53 q))"

text \<open>\<open>a + b\<close> on doubles.\<close>

fun js_add :: "js_number \<Rightarrow> js_number \<Rightarrow> js_number" where
  "js_add (Finite x) (Finite y) = fl (x + y)"
| "js_add NaN b = NaN"
| "js_add a NaN = NaN"
| "js_add PosInfinity NegInfinity = NaN"
| "js_add NegInfinity PosInfinity = NaN"
| "js_add PosInfinity b = PosInfinity"
| "js_add NegInfinity b = NegInfinity"
| "js_add a PosInfinity = PosInfinity"
| "js_add a NegInfinity = NegInfinity"

text \<open>
  \<open>a / b\<close> on doubles, for a divisor that is not a negative zero: a finite number
  divided by zero is \<open>NaN\<close> for \<open>0 / 0\<close> and an infinity otherwise.
\<close>

fun js_divide :: "js_number \<Rightarrow> js_number \<Rightarrow> js_number" where
  "js_divide (Finite x) (Finite y) =
     (if y = 0 then (if x = 0 then NaN else if 0 < x then PosInfinity else NegInfinity)
      else fl (x / y))"
| "js_divide NaN b = NaN"
| "js_divide a NaN = NaN"
| "js_divide (Finite x) b = Finite 0"
| "js_divide PosInfinity (Finite y) = (if y < 0 then NegInfinity else PosInfinity)"
| "js_divide NegInfinity (Finite y) = (if y < 0 then PosInfinity else NegInfinity)"
| "js_divide a b = NaN"

text \<open>\<open>a * 100\<close> on doubles.\<close>

fun js_times_100 :: "js_number \<Rightarrow> js_number" where
  "js_times_100 (Finite x) = fl (x * 100)"
| "js_times_100 a = a"

text \<open>
  What \<open>toFixed(1)\<close> returns: a text, or for a number of magnitude \<open>10^21\<close> or more
  the text that \<open>ToString\<close> gives for it (in exponent notation, not spelled out here).
\<close>

datatype shown = Text string | Number_ToString rat

text \<open>
  A finite number below \<open>10^21\<close> with one decimal: the integer \<open>n\<close> for which \<open>n / 10\<close>
  is nearest to the magnitude (the larger one of two), printed with a point before its
  last digit, after a minus sign for a negative number.
\<close>

definition one_decimal :: "rat \<Rightarrow> string" where
  "one_decimal x =
     (let n = nat \<lfloor>\<bar>x\<bar> * 10 + 1 / 2\<rfloor>
      in (if x < 0 then ''-'' else []) @ show_nat (n div 10) @ ''.'' @ [digit_char (n mod 10)])"

fun toFixed1 :: "js_number \<Rightarrow> shown" where
  "toFixed1 NaN = Text ''NaN''"
| "toFixed1 PosInfinity = Text ''Infinity''"
| "toFixed1 NegInfinity = Text ''-Infinity''"
| "toFixed1 (Finite x) = (if 10 ^ 21 \<le> \<bar>x\<bar> then Number_ToString x else Text (one_decimal x))"

text \<open>
  \<^verbatim>\<open>Object.values(repoData.languages).reduce((a, b) => a + b, 0)\<close>; the mapping is the
  list of its entries, in the order \<open>Object.entries\<close> gives them.
\<close>

definition totalLanguageBytes :: "(string \<times> js_number) list \<Rightarrow> js_number" where
  "totalLanguageBytes languages = foldl (\<lambda>a b. js_add a b) (Finite 0) (map snd languages)"

text \<open>\<^verbatim>\<open>((bytes / totalLanguageBytes) * 100).toFixed(1)\<close>\<close>

definition percentage :: "js_number \<Rightarrow> js_number \<Rightarrow> shown" where
  "percentage bytes sum_of_bytes = toFixed1 (js_times_100 (js_divide bytes sum_of_bytes))"

text \<open>
  The rows of the Languages card: one per entry, with what is shown before the percent
  sign.
  \<^verbatim>\<open>
  Object.entries(repoData.languages).map(([lang, bytes]) => {
    const percentage = ((bytes / totalLanguageBytes) * 100).toFixed(1); ... })
  \<close>
\<close>

definition language_rows :: "(string \<times> js_number) list \<Rightarrow> (string \<times> shown) list" where
  "language_rows languages =
     map (\<lambda>(lang, bytes). (lang, percentage bytes (totalLanguageBytes languages))) languages"

text \<open>A mapping whose byte counts are non-negative integers.\<close>

definition of_counts :: "(string \<times> nat) list \<Rightarrow> (string \<times> js_number) list" where
  "of_counts counts = map (\<lambda>(lang, n). (lang, Finite (of_nat n))) counts"


section \<open>The scoring and enhancement engine\<close>

text \<open>
  The engine that computes what the client displays is served by the backend and is not
  among the sources; the client only declares the shapes of its results. The
  definitions of this section follow the specification's description of it, and leave
  as parameters what the specification leaves open (weights, cutoffs, the wording of
  the templates).
\<close>

subsection \<open>Recognized README sections\<close>

text \<open>
  Modelled from the spec: the matching of section headings is case-insensitive; the
  function that folds case is missing from the sources. ASCII letters are folded.
\<close>

definition lower_char :: "char \<Rightarrow> char" where
  "lower_char c =
     (case map_of (zip ''ABCDEFGHIJKLMNOPQRSTUVWXYZ'' ''abcdefghijklmnopqrstuvwxyz'') c of
        Some l \<Rightarrow> l
      | None \<Rightarrow> c)"

definition lower :: "string \<Rightarrow> string" where
  "lower s = map lower_char s"

text \<open>
  Modelled from the spec: the section detector is missing from the sources. A heading
  is found in a README text by case-insensitive substring match.
\<close>

definition has_heading :: "string \<Rightarrow> string \<Rightarrow> bool" where
  "has_heading content h \<longleftrightarrow> sublist (lower h) (lower content)"

text \<open>
  Modelled from the spec: the recognized sections of a README (absent: \<open>None\<close>) are the
  headings of the catalog found in its text. The detector is missing from the sources;
  the catalog is a parameter.
\<close>

definition recognized :: "string list \<Rightarrow> string option \<Rightarrow> string list" where
  "recognized catalog readme =
     (case readme of
        None \<Rightarrow> []
      | Some content \<Rightarrow> filter (has_heading content) (remdups catalog))"

text \<open>
  Modelled from the spec: the missing sections are the set difference between the
  catalog and the headings found. The detector is missing from the sources.
\<close>

definition missing :: "string list \<Rightarrow> string option \<Rightarrow> string list" where
  "missing catalog readme =
     filter (\<lambda>h. h \<notin> set (recognized catalog readme)) (remdups catalog)"

text \<open>
  Modelled from the spec: the catalog of the six canonical sections, missing from the
  sources, in the order of the template generator (Title/Description, Features,
  Installation, Usage, Contributing, License).
\<close>

definition canonical_headings :: "string list" where
  "canonical_headings =
     [''Description'', ''Features'', ''Installation'', ''Usage'', ''Contributing'', ''License'']"

subsection \<open>README quality tier\<close>

text \<open>
  Modelled from the spec: the five quality tiers, which the sources only carry as a
  string.
\<close>

datatype tier = Tier_none | Tier_minimal | Tier_basic | Tier_good | Tier_excellent

text \<open>
  Modelled from the spec: the fixed order none < minimal < basic < good < excellent,
  which no source file defines.
\<close>

fun tier_rank :: "tier \<Rightarrow> nat" where
  "tier_rank Tier_none = 0"
| "tier_rank Tier_minimal = 1"
| "tier_rank Tier_basic = 2"
| "tier_rank Tier_good = 3"
| "tier_rank Tier_excellent = 4"

text \<open>
  Modelled from the spec: the cutoffs of the classification, missing from the sources
  and not fixed by the specification: the minimum length and the minimum number of
  recognized sections below which a README is minimal, and the number of sections that
  counts as most of them. The specification lets them be tuned only so long as the
  classification stays monotonic in the section coverage.
\<close>

record tier_thresholds =
  min_length :: nat
  min_sections :: nat
  most_sections :: nat

text \<open>
  Modelled from the spec: the README quality classifier is missing from the sources.
  In the fixed order of the specification: absent (or empty) is none; present but below
  the minimum length or structure threshold is minimal; with all recognized sections
  excellent, with most good, with some basic.
\<close>

definition classify_readme :: "tier_thresholds \<Rightarrow> string list \<Rightarrow> string option \<Rightarrow> tier" where
  "classify_readme thr catalog readme =
     (case readme of
        None \<Rightarrow> Tier_none
      | Some content \<Rightarrow>
          (let n = length (recognized catalog readme) in
           if content = [] then Tier_none
           else if length content < min_length thr \<or> n < min_sections thr then Tier_minimal
           else if n = length (remdups catalog) then Tier_excellent
           else if most_sections thr \<le> n then Tier_good
           else Tier_basic))"

text \<open>
  Modelled from the spec: one choice of the cutoffs that the specification leaves open,
  used in the examples.
\<close>

definition example_thresholds :: tier_thresholds where
  "example_thresholds = \<lparr>min_length = 5, min_sections = 1, most_sections = 4\<rparr>"




subsection \<open>README template generator\<close>

text \<open>
  Modelled from the spec: a section of the generator's catalog, missing from the
  sources: its heading and the template of its body, which may refer to the repository
  name.
\<close>

record readme_section =
  heading :: string
  template :: "string \<Rightarrow> string"

text \<open>The result of the generator, as the client declares it.\<close>

record EnhancedREADME =
  enhanced_readme :: string
  improvements :: "string list"

text \<open>The line feed character.\<close>

definition newline :: string where
  "newline = [CHR 0x0A]"

text \<open>
  Modelled from the spec: the text synthesized for a missing section, under its
  heading. The generator is missing from the sources.
\<close>

definition section_text :: "string \<Rightarrow> readme_section \<Rightarrow> string" where
  "section_text repo_name sec =
     newline @ newline @ ''## '' @ heading sec @ newline @ newline @ template sec repo_name"

text \<open>
  Modelled from the spec: the sections of the catalog whose heading is not found in the
  text, in the catalog's (canonical) order. The generator is missing from the sources.
\<close>

definition missing_sections :: "readme_section list \<Rightarrow> string \<Rightarrow> readme_section list" where
  "missing_sections catalog content = filter (\<lambda>sec. \<not> has_heading content (heading sec)) catalog"

text \<open>
  Modelled from the spec: the README template generator is missing from the sources.
  The existing text is kept verbatim, a section is synthesized and appended for every
  missing one in canonical order, and the improvements list names exactly the
  synthesized sections.
\<close>

definition generate_readme :: "readme_section list \<Rightarrow> string \<Rightarrow> string \<Rightarrow> EnhancedREADME" where
  "generate_readme catalog content repo_name =
     \<lparr>enhanced_readme =
        content @ concat (map (section_text repo_name) (missing_sections catalog content)),
      improvements =
        map (\<lambda>sec. ''Added '' @ heading sec @ '' section'') (missing_sections catalog content)\<rparr>"

text \<open>
  Modelled from the spec: the six canonical sections with a one-line template each;
  the wording of the templates is missing from the sources and from the specification,
  and this catalog is used in the examples only.
\<close>

definition canonical_catalog :: "readme_section list" where
  "canonical_catalog =
     map (\<lambda>h. \<lparr>heading = h, template = (\<lambda>repo_name. ''About '' @ repo_name @ ''.'')\<rparr>)
       canonical_headings"


subsection \<open>Repository health score\<close>

text \<open>
  Modelled from the spec: the metadata of a repository, as section 3 lists it (the
  backend's record is missing from the sources). Counts cannot be negative; the last
  update is a day number.
\<close>

record repository_metadata =
  rname :: string
  description :: "string option"
  language_bytes :: "(string \<times> nat) list"
  stars :: nat
  forks :: nat
  open_issues :: nat
  last_updated :: int
  is_private :: bool
  readme_text :: "string option"
  html_url :: string

text \<open>
  Modelled from the spec: a scored factor of the health score, missing from the
  sources: its weight in the sum, the score it reached, and the cutoff from which the
  score counts as good. Weights cannot be negative.
\<close>

record factor =
  weight :: nat
  score :: int
  good_cutoff :: int

text \<open>
  Modelled from the spec: how one factor is scored. The scorer is missing from the
  sources and the specification leaves weights, cutoffs and scales open, so they are
  parameters: \<open>rule_points\<close> maps what the factor looks at to its score.
\<close>

record 'a factor_rule =
  rule_weight :: nat
  rule_cutoff :: int
  rule_points :: "'a \<Rightarrow> int"

text \<open>
  Modelled from the spec: a factor scored by its rule (part of the missing scorer).
\<close>

definition apply_rule :: "'a factor_rule \<Rightarrow> 'a \<Rightarrow> factor" where
  "apply_rule r x = \<lparr>weight = rule_weight r, score = rule_points r x, good_cutoff = rule_cutoff r\<rparr>"

text \<open>
  Modelled from the spec: the parameters of the missing scorer, one rule for each of
  the five factors of section 4.1: the README tier, the presence of a description, the
  last update, the star and fork counts, and the open issues relative to the last
  update.
\<close>

record scoring_config =
  tier_cutoffs :: tier_thresholds
  section_catalog :: "string list"
  readme_rule :: "tier factor_rule"
  description_rule :: "bool factor_rule"
  recency_rule :: "int factor_rule"
  popularity_rule :: "(nat \<times> nat) factor_rule"
  issues_rule :: "(nat \<times> int) factor_rule"

text \<open>
  Modelled from the spec: a description is present when it is there and not empty
  (part of the missing scorer).
\<close>

definition has_description :: "repository_metadata \<Rightarrow> bool" where
  "has_description m \<longleftrightarrow> (case description m of None \<Rightarrow> False | Some d \<Rightarrow> d \<noteq> [])"

text \<open>
  Modelled from the spec: the factors of a repository, in the order of the
  specification. The scorer is missing from the sources. It is a function of the
  metadata alone: the recency rule scores the last-update timestamp (an older one
  lower), and the date from which it counts the elapsed time is part of the rule.
\<close>

definition factors :: "scoring_config \<Rightarrow> repository_metadata \<Rightarrow> factor list" where
  "factors cfg m =
     [apply_rule (readme_rule cfg)
        (classify_readme (tier_cutoffs cfg) (section_catalog cfg) (readme_text m)),
      apply_rule (description_rule cfg) (has_description m),
      apply_rule (recency_rule cfg) (last_updated m),
      apply_rule (popularity_rule cfg) (stars m, forks m),
      apply_rule (issues_rule cfg) (open_issues m, last_updated m)]"

text \<open>
  Modelled from the spec: clamping to [0, 100] (part of the missing scorer).
\<close>

definition clamp_score :: "int \<Rightarrow> int" where
  "clamp_score x = max 0 (min 100 x)"

text \<open>
  Modelled from the spec: the weighted sum of the factor scores (part of the missing
  scorer).
\<close>

definition weighted_sum :: "factor list \<Rightarrow> int" where
  "weighted_sum fs = sum_list (map (\<lambda>f. int (weight f) * score f) fs)"

text \<open>
  Modelled from the spec: the health score is the weighted sum of the factor scores,
  clamped to [0, 100].
\<close>

definition health_of :: "factor list \<Rightarrow> int" where
  "health_of fs = clamp_score (weighted_sum fs)"


text \<open>
  Modelled from the spec: one choice of the weights, cutoffs and scales that the
  specification leaves open, used in the examples: README tier up to 40 points, a
  description 10, an update within 180 days before day 1000 20 (within two years 10),
  stars and forks up to 20, at most ten open issues 10.
\<close>

definition example_config :: scoring_config where
  "example_config =
     \<lparr>tier_cutoffs = example_thresholds,
      section_catalog = canonical_headings,
      readme_rule = \<lparr>rule_weight = 1, rule_cutoff = 30,
        rule_points = (\<lambda>t. 10 * int (tier_rank t))\<rparr>,
      description_rule = \<lparr>rule_weight = 1, rule_cutoff = 10,
        rule_points = (\<lambda>present. if present then 10 else 0)\<rparr>,
      recency_rule = \<lparr>rule_weight = 1, rule_cutoff = 20,
        rule_points = (\<lambda>updated. if 1000 - updated \<le> 180 then 20
                                 else if 1000 - updated \<le> 730 then 10 else 0)\<rparr>,
      popularity_rule = \<lparr>rule_weight = 1, rule_cutoff = 10,
        rule_points = (\<lambda>(s, f). int (min 20 (s + f)))\<rparr>,
      issues_rule = \<lparr>rule_weight = 1, rule_cutoff = 10,
        rule_points = (\<lambda>(n, updated). if n \<le> 10 then 10 else 0)\<rparr>\<rparr>"

text \<open>A repository with no README, no stars and no recent update, used in the examples.\<close>

definition abandoned_repo :: repository_metadata where
  "abandoned_repo =
     \<lparr>rname = ''old'', description = None, language_bytes = [], stars = 0, forks = 0,
      open_issues = 0, last_updated = 0, is_private = False, readme_text = None,
      html_url = ''https://github.com/octocat/old''\<rparr>"

subsection \<open>Portfolio aggregation and the enhancement plan\<close>

text \<open>
  Modelled from the spec: what the planner reads of a portfolio report (the backend's
  record is missing from the sources): the scored factors of every repository, and the
  profile's counts.
\<close>

record PortfolioReport =
  repositories :: "factor list list"
  total_repos :: nat
  total_stars :: nat

text \<open>
  Modelled from the spec: the parameters of the profile-level bonuses of the missing
  aggregator, which the specification leaves open. Bonuses cannot be negative.
\<close>

record bonus_config =
  repo_bonus_from :: nat
  repo_bonus :: nat
  star_bonus_from :: nat
  star_bonus :: nat

text \<open>
  Modelled from the spec: a bonus for having enough repositories and a bonus for
  enough stars in total (part of the missing aggregator).
\<close>

definition profile_bonus :: "bonus_config \<Rightarrow> PortfolioReport \<Rightarrow> int" where
  "profile_bonus b r =
     (if repo_bonus_from b \<le> total_repos r then int (repo_bonus b) else 0)
     + (if star_bonus_from b \<le> total_stars r then int (star_bonus b) else 0)"

text \<open>
  Modelled from the spec: the unweighted mean, rounded down; zero for no repositories
  (part of the missing aggregator).
\<close>

definition mean_score :: "int list \<Rightarrow> int" where
  "mean_score xs = (if xs = [] then 0 else sum_list xs div int (length xs))"

text \<open>
  Modelled from the spec: the portfolio aggregator is missing from the sources. The
  overall score is the mean of the health scores (the unweighted mean, which the
  specification allows) plus the profile bonuses, bounded to [0, 100].
\<close>

definition overall_score :: "bonus_config \<Rightarrow> PortfolioReport \<Rightarrow> int" where
  "overall_score b r =
     clamp_score (mean_score (map health_of (repositories r)) + profile_bonus b r)"

text \<open>
  Modelled from the spec: the simulation of the planner brings every factor that is
  below its good cutoff up to that cutoff.
\<close>

definition raise_factor :: "factor \<Rightarrow> factor" where
  "raise_factor f = (if score f < good_cutoff f then f\<lparr>score := good_cutoff f\<rparr> else f)"

text \<open>
  Modelled from the spec: the simulated portfolio, every repository with its factors
  raised (part of the missing planner).
\<close>

definition simulate :: "PortfolioReport \<Rightarrow> PortfolioReport" where
  "simulate r = r\<lparr>repositories := map (map raise_factor) (repositories r)\<rparr>"

text \<open>The two scores of the plan, as the client declares them.\<close>

record EnhancementPlan =
  current_score :: int
  potential_score :: int

text \<open>
  Modelled from the spec: the enhancement planner is missing from the sources. The
  potential score is the aggregation run again on the simulated portfolio; nothing
  else bounds it from below.
\<close>

definition enhancement_plan :: "bonus_config \<Rightarrow> PortfolioReport \<Rightarrow> EnhancementPlan" where
  "enhancement_plan b r =
     \<lparr>current_score = overall_score b r, potential_score = overall_score b (simulate r)\<rparr>"

text \<open>
  Modelled from the spec: one choice of the bonuses that the specification leaves open,
  used in the examples.
\<close>

definition example_bonus :: bonus_config where
  "example_bonus = \<lparr>repo_bonus_from = 5, repo_bonus = 5, star_bonus_from = 100, star_bonus = 5\<rparr>"

text \<open>A report of two repositories, used in the examples.\<close>

definition example_report :: PortfolioReport where
  "example_report =
     \<lparr>repositories = [factors example_config abandoned_repo,
        [\<lparr>weight = 1, score = 40, good_cutoff = 30\<rparr>, \<lparr>weight = 1, score = 0, good_cutoff = 10\<rparr>]],
      total_repos = 2, total_stars = 0\<rparr>"


section \<open>Facts about trimming\<close>

lemma dropWhile_all_iff: "(\<forall>x\<in>set (dropWhile P xs). P x) \<longleftrightarrow> dropWhile P xs = []"
proof
  assume all: "\<forall>x\<in>set (dropWhile P xs). P x"
  show "dropWhile P xs = []"
  proof (rule ccontr)
    assume ne: "dropWhile P xs \<noteq> []"
    then have "\<not> P (hd (dropWhile P xs))"
      by (rule hd_dropWhile)
    moreover have "hd (dropWhile P xs) \<in> set (dropWhile P xs)"
      using ne by simp
    ultimately show False
      using all by blast
  qed
next
  assume e: "dropWhile P xs = []"
  show "\<forall>x\<in>set (dropWhile P xs). P x"
    unfolding e by simp
qed

lemma trim_empty_iff: "trim s = [] \<longleftrightarrow> (\<forall>c\<in>set s. is_white_space c)"
proof -
  have "trim s = [] \<longleftrightarrow> (\<forall>x\<in>set (dropWhile is_white_space s). is_white_space x)"
    by (simp add: trim_def dropWhile_eq_Nil_conv)
  also have "\<dots> \<longleftrightarrow> dropWhile is_white_space s = []"
    by (rule dropWhile_all_iff)
  also have "\<dots> \<longleftrightarrow> (\<forall>c\<in>set s. is_white_space c)"
    by (simp add: dropWhile_eq_Nil_conv)
  finally show ?thesis .
qed

lemma trim_decomposition:
  "\<exists>pre post. s = pre @ trim s @ post
     \<and> (\<forall>c\<in>set pre. is_white_space c) \<and> (\<forall>c\<in>set post. is_white_space c)"
proof -
  let ?t = "dropWhile is_white_space s"
  let ?r = "rev ?t"
  have a: "s = takeWhile is_white_space s @ ?t"
    by simp
  have b: "?r = takeWhile is_white_space ?r @ dropWhile is_white_space ?r"
    by simp
  have "?t = rev ?r"
    by simp
  also have "\<dots> = rev (dropWhile is_white_space ?r) @ rev (takeWhile is_white_space ?r)"
    by (subst b) (simp only: rev_append)
  finally have c: "?t = trim s @ rev (takeWhile is_white_space ?r)"
    by (simp add: trim_def)
  have "s = takeWhile is_white_space s @ trim s @ rev (takeWhile is_white_space ?r)"
    using a c by metis
  moreover have "\<forall>c\<in>set (takeWhile is_white_space s). is_white_space c"
    by (auto dest: set_takeWhileD)
  moreover have "\<forall>c\<in>set (rev (takeWhile is_white_space ?r)). is_white_space c"
    by (auto dest: set_takeWhileD)
  ultimately show ?thesis
    by blast
qed

lemma trim_ends:
  assumes "trim s \<noteq> []"
  shows "\<not> is_white_space (hd (trim s)) \<and> \<not> is_white_space (last (trim s))"
proof -
  let ?t = "dropWhile is_white_space s"
  let ?d = "dropWhile is_white_space (rev ?t)"
  from assms have d: "?d \<noteq> []"
    by (simp add: trim_def)
  then have "\<not> is_white_space (hd ?d)"
    by (rule hd_dropWhile)
  then have l: "\<not> is_white_space (last (trim s))"
    using d by (simp add: trim_def last_rev)
  have t: "?t \<noteq> []"
  proof
    assume "?t = []"
    with d show False
      by simp
  qed
  then have h: "\<not> is_white_space (hd ?t)"
    by (rule hd_dropWhile)
  obtain post where p: "?t = trim s @ post"
  proof -
    have "rev ?t = takeWhile is_white_space (rev ?t) @ ?d"
      by simp
    then have "?t = rev ?d @ rev (takeWhile is_white_space (rev ?t))"
      by (metis rev_append rev_rev_ident)
    then show ?thesis
      using that by (simp add: trim_def)
  qed
  from assms p have "hd ?t = hd (trim s)"
    by (metis hd_append2)
  with h l show ?thesis
    by simp
qed


section \<open>Facts about the quality badges\<close>

lemma quality_styles_distinct:
  "distinct (map getQualityBadge quality_tiers) \<and> distinct (map getQualityColor quality_tiers)"
  by (simp add: quality_tiers_def getQualityBadge_def getQualityColor_def js_get_def
      badge_colors_def quality_colors_def)

lemma quality_fallback:
  assumes "quality \<notin> set quality_tiers" and "quality \<notin> set object_prototype_keys"
  shows "getQualityBadge quality = getQualityBadge ''none''"
    and "getQualityColor quality = getQualityColor ''none''"
  using assms
  by (simp_all add: quality_tiers_def getQualityBadge_def getQualityColor_def js_get_def
      badge_colors_def quality_colors_def)

lemma quality_inherited:
  assumes "quality \<in> set object_prototype_keys"
  shows "getQualityBadge quality = Inherited quality"
    and "getQualityColor quality = Inherited quality"
  using assms
  by (auto simp: getQualityBadge_def getQualityColor_def js_get_def badge_colors_def
      quality_colors_def object_prototype_keys_def)


section \<open>Facts about the API client\<close>


lemma read_response_null:
  "\<not> ok r \<Longrightarrow> body r = Some JNull \<Longrightarrow> read_response r = Inl NullDereference"
  by (simp add: read_response_def)







section \<open>Facts about the Dashboard\<close>

lemma handleLoadEnhancement_guard:
  "no_username (component w) \<or> truthy (enhancement (component w)) \<Longrightarrow>
   handleLoadEnhancement w = w"
  by (auto simp: handleLoadEnhancement_def no_username_def split: option.splits)

lemma handleLoadEnhancement_starts:
  assumes "username (component w) = Some u" and "u \<noteq> []"
    and "\<not> truthy (enhancement (component w))"
  shows "handleLoadEnhancement w = w\<lparr>requests := requests w @ [u], in_flight := Suc (in_flight w)\<rparr>"
  using assms by (simp add: handleLoadEnhancement_def)

lemma dashboard_step_username:
  "username (component (dashboard_step w e)) = username (component w)"
  by (cases e)
    (simp_all add: handleLoadEnhancement_def handleLoadEnhancement_returned_def
      handleLoadEnhancement_threw_def split: option.splits)

lemma dashboard_step_shown:
  "showEnhancement (component w) \<Longrightarrow> showEnhancement (component (dashboard_step w e))"
  by (cases e)
    (simp_all add: handleLoadEnhancement_def handleLoadEnhancement_returned_def
      handleLoadEnhancement_threw_def split: option.splits)

lemma dashboard_step_settled:
  "truthy (enhancement (component w)) \<Longrightarrow> in_flight w = 0 \<Longrightarrow> dashboard_step w e = w"
  by (cases e) (simp_all add: handleLoadEnhancement_guard)

lemma dashboard_run_settled:
  "truthy (enhancement (component w)) \<Longrightarrow> in_flight w = 0 \<Longrightarrow> foldl dashboard_step w evs = w"
  by (induction evs) (simp_all add: dashboard_step_settled)

lemma dashboard_step_no_username:
  "no_username (component w) \<Longrightarrow>
   no_username (component (dashboard_step w e)) \<and> requests (dashboard_step w e) = requests w"
proof -
  assume n: "no_username (component w)"
  have "requests (dashboard_step w e) = requests w"
    by (cases e)
      (simp_all add: n handleLoadEnhancement_guard handleLoadEnhancement_returned_def
        handleLoadEnhancement_threw_def)
  moreover have "no_username (component (dashboard_step w e))"
    using n dashboard_step_username [of w e] by (simp add: no_username_def)
  ultimately show ?thesis
    by simp
qed

lemma dashboard_run_no_username:
  "no_username (component w) \<Longrightarrow> requests (foldl dashboard_step w evs) = requests w"
proof (induction evs arbitrary: w)
  case Nil
  then show ?case by simp
next
  case (Cons e evs)
  from Cons.prems have step: "no_username (component (dashboard_step w e))"
    and same: "requests (dashboard_step w e) = requests w"
    by (simp_all add: dashboard_step_no_username)
  from Cons.IH [OF step] same show ?case
    by simp
qed

lemma dashboard_run_shown:
  "showEnhancement (component w) \<Longrightarrow> showEnhancement (component (foldl dashboard_step w evs))"
  by (induction evs arbitrary: w) (simp_all add: dashboard_step_shown)


section \<open>Facts about the language percentages\<close>

lemma round_half_even_of_int: "round_half_even (of_int m) = m"
  by (simp add: round_half_even_def)

lemma round_half_even_bounds:
  assumes "0 \<le> x"
  shows "0 \<le> round_half_even x" and "of_int (round_half_even x) \<le> 2 * x"
proof -
  let ?n = "\<lfloor>x\<rfloor>"
  have n0: "0 \<le> ?n"
    using assms by simp
  have le: "of_int ?n \<le> x"
    by (rule of_int_floor_le)
  show "0 \<le> round_half_even x"
    using n0 by (simp add: round_half_even_def Let_def)
  show "of_int (round_half_even x) \<le> 2 * x"
  proof (cases "x - of_int ?n < 1 / 2")
    case True
    then have "round_half_even x = ?n"
      by (simp add: round_half_even_def Let_def)
    with le assms show ?thesis
      by linarith
  next
    case False
    then have half: "of_int ?n + 1 / 2 \<le> x"
      by simp
    have "round_half_even x \<le> ?n + 1"
      by (simp add: round_half_even_def Let_def)
    then have "(of_int (round_half_even x) :: rat) \<le> of_int ?n + 1"
      by (metis of_int_1 of_int_add of_int_le_iff)
    also have "\<dots> \<le> 2 * x"
    proof -
      have "(0::rat) \<le> of_int ?n"
        using n0 by simp
      with half show ?thesis
        by linarith
    qed
    finally show ?thesis .
  qed
qed


lemma quantum_pos: "0 < quantum a"
  by (simp add: quantum_def)

lemma round53_bounds:
  assumes "0 \<le> q"
  shows "0 \<le> round53 q" and "round53 q \<le> 2 * q"
proof -
  show "0 \<le> round53 q"
  proof (cases "q = 0")
    case True
    then show ?thesis by (simp add: round53_def)
  next
    case False
    with assms have "0 < q" by simp
    moreover have "0 \<le> round_half_even (\<bar>q\<bar> / quantum \<bar>q\<bar>)"
      using quantum_pos [of "\<bar>q\<bar>"] by (intro round_half_even_bounds) simp
    ultimately show ?thesis
      using quantum_pos [of "\<bar>q\<bar>"] by (simp add: round53_def)
  qed
  show "round53 q \<le> 2 * q"
  proof (cases "q = 0")
    case True
    then show ?thesis by (simp add: round53_def)
  next
    case False
    with assms have pos: "0 < q" by simp
    let ?u = "quantum q"
    have u: "0 < ?u"
      by (rule quantum_pos)
    have "of_int (round_half_even (q / ?u)) \<le> 2 * (q / ?u)"
      using pos u by (intro round_half_even_bounds) simp
    then have "of_int (round_half_even (q / ?u)) * ?u \<le> 2 * (q / ?u) * ?u"
      using u by (simp only: mult_le_cancel_right_pos)
    also have "\<dots> = 2 * q"
      using u by simp
    finally show ?thesis
      using pos by (simp add: round53_def)
  qed
qed

lemma power_split: "(2::rat) ^ (a + b) - 2 ^ b = (2 ^ a - 1) * 2 ^ b"
  by (simp add: power_add algebra_simps)

lemma overflow_threshold: "(2::rat) ^ 54 \<le> 2 ^ 1024 - 2 ^ 970"
proof -
  have split: "(1024::nat) = 54 + 970"
    by simp
  have "(2::rat) ^ 54 \<le> 2 ^ 970"
    by (rule power_increasing) simp_all
  also have "\<dots> = 1 * 2 ^ 970"
    by (simp only: mult_1)
  also have "\<dots> \<le> (2 ^ 54 - 1) * 2 ^ 970"
    by (rule mult_right_mono) simp_all
  also have "\<dots> = 2 ^ 1024 - 2 ^ 970"
    by (simp only: split power_split)
  finally show ?thesis .
qed

lemma fl_small:
  assumes "0 \<le> q" and "q < 2 ^ 54"
  shows "fl q = Finite (round53 q)"
proof -
  have "q < 2 ^ 1024 - 2 ^ 970"
    using assms(2) overflow_threshold by (rule less_le_trans)
  then have "\<not> 2 ^ 1024 - 2 ^ 970 \<le> \<bar>q\<bar>"
    using assms(1) by (simp only: abs_of_nonneg not_le)
  then show ?thesis
    unfolding fl_def by (simp only: if_False)
qed

lemma ilog2_of_int: "1 \<le> n \<Longrightarrow> ilog2 (of_int n) = bitlen n - 1"
  by (simp add: ilog2_def)

lemma round53_of_int:
  assumes "0 \<le> n" and "n \<le> 2 ^ 53"
  shows "round53 (of_int n) = of_int n"
proof (cases "n = 0")
  case True
  then show ?thesis by (simp add: round53_def)
next
  case False
  with assms have pos: "0 < n" by simp
  define e where "e = bitlen n - 1"
  have bounds: "2 ^ nat e \<le> n" "n < 2 ^ nat (e + 1)"
    using bitlen_bounds [OF pos] by (simp_all add: e_def)
  have e0: "0 \<le> e"
    using pos bitlen_nonneg [of n] bitlen_eq_zero_iff [of n] by (simp add: e_def)
  have p53: "(2::int) ^ nat e \<le> 2 ^ 53"
    using bounds(1) assms(2) by (rule order_trans)
  have "nat e \<le> 53"
    by (rule power_le_imp_le_exp [OF _ p53]) simp
  then have e53: "e \<le> 53"
    using e0 by simp
  have q: "quantum \<bar>of_int n\<bar> = 2 powi (e - 52)"
    using pos e0 by (simp add: quantum_def ilog2_of_int e_def)
  have "\<exists>m. (of_int n :: rat) / 2 powi (e - 52) = of_int m"
  proof (cases "e \<le> 52")
    case True
    then have "(2::rat) powi (e - 52) = 1 / 2 ^ nat (52 - e)"
      by (simp add: power_int_def field_simps)
    then have "(of_int n :: rat) / 2 powi (e - 52) = of_int (n * 2 ^ nat (52 - e))"
      by simp
    then show ?thesis ..
  next
    case False
    with e53 have e: "e = 53" by simp
    then have "n = 2 ^ 53"
      using bounds(1) assms(2) by simp
    then have "(of_int n :: rat) / 2 powi (e - 52) = of_int (2 ^ 52)"
      using e by simp
    then show ?thesis ..
  qed
  then obtain m where m: "(of_int n :: rat) / 2 powi (e - 52) = of_int m" ..
  have u: "(0::rat) < 2 powi (e - 52)"
    by simp
  have "of_int (round_half_even (of_int n / 2 powi (e - 52))) * 2 powi (e - 52)
      = (of_int n :: rat) / 2 powi (e - 52) * 2 powi (e - 52)"
    by (simp only: m round_half_even_of_int)
  also have "\<dots> = of_int n"
    using u by simp
  finally show ?thesis
    using pos q by (simp add: round53_def)
qed

lemma fl_of_int:
  assumes "0 \<le> n" and "n \<le> 2 ^ 53"
  shows "fl (of_int n) = Finite (of_int n)"
proof -
  have "(of_int n :: rat) \<le> of_int (2 ^ 53)"
    using assms(2) by (simp only: of_int_le_iff)
  then have "(of_int n :: rat) < 2 ^ 54"
    by simp
  moreover have "(0::rat) \<le> of_int n"
    using assms(1) by simp
  ultimately show ?thesis
    using round53_of_int [OF assms] by (simp add: fl_small)
qed


lemma total_of_counts_from:
  assumes "s + sum_list ns \<le> 2 ^ 53"
  shows "foldl (\<lambda>a b. js_add a b) (Finite (of_nat s)) (map (\<lambda>n. Finite (of_nat n)) ns)
    = Finite (of_nat (s + sum_list ns))"
  using assms
proof (induction ns arbitrary: s)
  case Nil
  then show ?case by simp
next
  case (Cons n ns)
  have le: "s + n \<le> 2 ^ 53"
    using Cons.prems by simp
  have "(of_nat s :: rat) + of_nat n = of_int (int (s + n))"
    by simp
  moreover have "fl (of_int (int (s + n))) = Finite (of_int (int (s + n)))"
  proof (rule fl_of_int)
    show "0 \<le> int (s + n)" by simp
    have "int (s + n) \<le> int (2 ^ 53)"
      using le by (simp only: of_nat_le_iff)
    then show "int (s + n) \<le> 2 ^ 53" by simp
  qed
  ultimately have step: "js_add (Finite (of_nat s)) (Finite (of_nat n)) = Finite (of_nat (s + n))"
    by simp
  have "s + n + sum_list ns \<le> 2 ^ 53"
    using Cons.prems by (simp add: add.assoc)
  from Cons.IH [OF this] step show ?case
    by (simp add: add.assoc)
qed

lemma total_of_counts:
  assumes "sum_list (map snd counts) \<le> 2 ^ 53"
  shows "totalLanguageBytes (of_counts counts) = Finite (of_nat (sum_list (map snd counts)))"
proof -
  have "map snd (of_counts counts) = map (\<lambda>n. Finite (of_nat n)) (map snd counts)"
    by (simp add: of_counts_def case_prod_beta comp_def)
  then show ?thesis
    using total_of_counts_from [of 0 "map snd counts"] assms
    by (simp add: totalLanguageBytes_def)
qed

lemma percentage_of_part:
  assumes "n \<le> t" and "0 < t"
  shows "js_times_100 (js_divide (Finite (of_nat n)) (Finite (of_nat t)))
      = Finite (round53 (round53 (of_nat n / of_nat t) * 100))"
    and "percentage (Finite (of_nat n)) (Finite (of_nat t))
      = Text (one_decimal (round53 (round53 (of_nat n / of_nat t) * 100)))"
proof -
  let ?q = "(of_nat n :: rat) / of_nat t"
  have q: "0 \<le> ?q" "?q \<le> 1"
    using assms by simp_all
  have "(1::rat) < 2 ^ 54"
    by simp
  with q(2) have "?q < 2 ^ 54"
    by (rule order.strict_trans1)
  with q have d: "fl ?q = Finite (round53 ?q)"
    by (simp add: fl_small)
  let ?r = "round53 ?q"
  have r: "0 \<le> ?r" "?r \<le> 2"
    using round53_bounds [OF q(1)] q(2) by simp_all
  then have r100: "0 \<le> ?r * 100" "?r * 100 \<le> 200"
    by simp_all
  have "(200::rat) < 2 ^ 54"
    by simp
  with r100 have "?r * 100 < 2 ^ 54"
    by (rule_tac order.strict_trans1)
  with r100 have m: "fl (?r * 100) = Finite (round53 (?r * 100))"
    by (simp add: fl_small)
  show v: "js_times_100 (js_divide (Finite (of_nat n)) (Finite (of_nat t)))
      = Finite (round53 (?r * 100))"
    using assms d m by simp
  let ?x = "round53 (?r * 100)"
  have "0 \<le> ?x" "?x \<le> 2 * (?r * 100)"
    using round53_bounds [OF r100(1)] by simp_all
  then have "\<bar>?x\<bar> \<le> 400"
    using r100 by simp
  then have "\<not> 10 ^ 21 \<le> \<bar>?x\<bar>"
    by simp
  then show "percentage (Finite (of_nat n)) (Finite (of_nat t)) = Text (one_decimal ?x)"
    unfolding percentage_def v by simp
qed


section \<open>Facts about README sections\<close>

lemma lower_append: "lower (a @ b) = lower a @ lower b"
  by (simp add: lower_def)

lemma sublist_append_right: "sublist xs ys \<Longrightarrow> sublist xs (ys @ zs)"
  unfolding sublist_def by (metis append.assoc)

lemma sublist_map_lower: "sublist xs ys \<Longrightarrow> sublist (lower xs) (lower ys)"
  unfolding sublist_def lower_def by (metis map_append)

lemma sublist_append_left: "sublist xs zs \<Longrightarrow> sublist xs (ys @ zs)"
  unfolding sublist_def by (metis append.assoc)

lemma sublist_concat_member: "x \<in> set xss \<Longrightarrow> sublist x (concat xss)"
proof -
  assume "x \<in> set xss"
  then obtain as bs where "xss = as @ x # bs"
    by (auto dest: split_list)
  then have "concat xss = concat as @ x @ concat bs"
    by simp
  then show ?thesis
    by (metis sublist_appendI)
qed

lemma has_heading_append: "has_heading content h \<Longrightarrow> has_heading (content @ rest) h"
  by (simp add: has_heading_def lower_append sublist_append_right)

lemma has_heading_appended: "has_heading rest h \<Longrightarrow> has_heading (content @ rest) h"
  by (simp add: has_heading_def lower_append sublist_append_left)


lemma section_text_has_heading: "has_heading (section_text repo_name sec) (heading sec)"
proof -
  have "lower (section_text repo_name sec)
      = lower (newline @ newline @ ''## '') @ lower (heading sec)
        @ lower (newline @ newline @ template sec repo_name)"
    by (simp only: section_text_def lower_append append_assoc)
  then show ?thesis
    unfolding has_heading_def by (metis sublist_appendI)
qed

lemma generated_has_every_heading:
  assumes "sec \<in> set catalog"
  shows "has_heading (enhanced_readme (generate_readme catalog content repo_name)) (heading sec)"
proof (cases "has_heading content (heading sec)")
  case True
  then show ?thesis
    by (simp add: generate_readme_def has_heading_append)
next
  case False
  with assms have "sec \<in> set (missing_sections catalog content)"
    by (simp add: missing_sections_def)
  then have "section_text repo_name sec
      \<in> set (map (section_text repo_name) (missing_sections catalog content))"
    by simp
  then have "sublist (section_text repo_name sec)
      (concat (map (section_text repo_name) (missing_sections catalog content)))"
    by (rule sublist_concat_member)
  then have "sublist (lower (section_text repo_name sec))
      (lower (concat (map (section_text repo_name) (missing_sections catalog content))))"
    by (rule sublist_map_lower)
  moreover have "sublist (lower (heading sec)) (lower (section_text repo_name sec))"
    using section_text_has_heading [of repo_name sec] by (simp add: has_heading_def)
  ultimately have "has_heading
      (concat (map (section_text repo_name) (missing_sections catalog content))) (heading sec)"
    unfolding has_heading_def by (rule sublist_order.order.trans [rotated])
  then show ?thesis
    by (simp add: generate_readme_def has_heading_appended)
qed









section \<open>Facts about scores\<close>


lemma clamp_score_mono: "x \<le> y \<Longrightarrow> clamp_score x \<le> clamp_score y"
  by (simp add: clamp_score_def)

lemma raise_factor_weight: "weight (raise_factor f) = weight f"
  by (simp add: raise_factor_def)

lemma raise_factor_score: "score f \<le> score (raise_factor f)"
  by (simp add: raise_factor_def)

lemma raise_factor_reaches_cutoff: "good_cutoff f \<le> score (raise_factor f)"
  by (simp add: raise_factor_def)

lemma weighted_sum_raise: "weighted_sum fs \<le> weighted_sum (map raise_factor fs)"
proof (induction fs)
  case Nil
  then show ?case by (simp add: weighted_sum_def)
next
  case (Cons f fs)
  have "int (weight f) * score f \<le> int (weight (raise_factor f)) * score (raise_factor f)"
    by (simp add: raise_factor_weight raise_factor_score mult_left_mono)
  with Cons.IH show ?case
    by (simp add: weighted_sum_def)
qed

lemma health_of_raise: "health_of fs \<le> health_of (map raise_factor fs)"
  by (simp add: health_of_def clamp_score_mono weighted_sum_raise)

lemma sum_health_raise:
  "sum_list (map health_of rs) \<le> sum_list (map health_of (map (map raise_factor) rs))"
  by (induction rs) (simp_all add: add_mono health_of_raise)

lemma mean_score_raise:
  "mean_score (map health_of rs) \<le> mean_score (map health_of (map (map raise_factor) rs))"
proof (cases rs)
  case Nil
  then show ?thesis by (simp add: mean_score_def)
next
  case (Cons r rs')
  then have "0 < int (length rs)"
    by simp
  then have "sum_list (map health_of rs) div int (length rs)
      \<le> sum_list (map health_of (map (map raise_factor) rs)) div int (length rs)"
    using sum_health_raise [of rs] by (intro zdiv_mono1)
  with Cons show ?thesis
    by (simp add: mean_score_def)
qed

lemma profile_bonus_simulate: "profile_bonus b (simulate r) = profile_bonus b r"
  by (simp add: profile_bonus_def simulate_def)


section \<open>The claims\<close>

text \<open>
  C10. Submitting the analyze form navigates to \<open>/dashboard/<trimmed username>\<close> exactly
  when the username is not empty after trimming, that is, when it has a character that
  is not white space; for an empty or all-white-space username nothing is navigated to.
\<close>

theorem handleAnalyze_navigates_iff_nonblank:
  "(handleAnalyze u = [ustr ''/dashboard/'' @ trim u] \<longleftrightarrow> trim u \<noteq> [])
   \<and> (handleAnalyze u = [] \<longleftrightarrow> (\<forall>c\<in>set u. is_white_space c))
   \<and> (trim u \<noteq> [] \<longleftrightarrow> (\<exists>c\<in>set u. \<not> is_white_space c))"
  using trim_empty_iff [of u] by (auto simp: handleAnalyze_def)

theorem handleAnalyze_navigates_iff_nonblank_witness:
  "handleAnalyze (ustr ''  tj '') = [ustr ''/dashboard/tj'']
   \<and> handleAnalyze (ustr ''   '') = []
   \<and> handleAnalyze [] = []"
  using handleAnalyze_navigates_iff_nonblank [of "ustr ''  tj ''"]
    handleAnalyze_navigates_iff_nonblank [of "ustr ''   ''"]
    handleAnalyze_navigates_iff_nonblank [of "[]"]
  by (simp add: ustr_def trim_def is_white_space_def)

text \<open>
  C2. Once a render error is caught \<open>hasError\<close> is true, no event of the component's
  life turns it back to false, and every later render gives the fallback instead of the
  children.
\<close>

theorem error_boundary_fallback_is_permanent:
  "hasError (eb_step st (ChildThrew :: 'n eb_event))
   \<and> (hasError st \<longrightarrow> hasError (eb_step st (e :: 'n eb_event)))
   \<and> render (foldl eb_step (eb_step st ChildThrew) (evs :: 'n eb_event list)) (children :: 'n)
       = Fallback"
proof -
  have step: "hasError s \<Longrightarrow> hasError (eb_step s x)" for s and x :: "'n eb_event"
    by (cases x) (simp_all add: getDerivedStateFromError_def)
  have run: "hasError s \<Longrightarrow> hasError (foldl eb_step s xs)" for s and xs :: "'n eb_event list"
    by (induction xs arbitrary: s) (simp_all add: step)
  have caught: "hasError (eb_step s (ChildThrew :: 'n eb_event))" for s
    by (simp add: getDerivedStateFromError_def)
  show ?thesis
    using caught [of st] step [of st e] run [OF caught, of st evs]
    by (simp add: render_def)
qed

theorem error_boundary_fallback_is_permanent_witness:
  "hasError (eb_step eb_constructor (ChildThrew :: nat eb_event))
   \<and> hasError (eb_step (eb_step eb_constructor ChildThrew) (Rerender (1::nat)))
   \<and> render (foldl eb_step (eb_step eb_constructor ChildThrew)
        [Rerender 2, ChildThrew, Rerender 3]) (4::nat) = Fallback
   \<and> render eb_constructor (4::nat) = Children 4"
  using error_boundary_fallback_is_permanent
    [of eb_constructor "Rerender (1::nat)" "[Rerender 2, ChildThrew, Rerender 3]" 4]
    error_boundary_fallback_is_permanent
    [of "eb_step eb_constructor ChildThrew" "Rerender (1::nat)" "[]" 4]
  by (simp add: render_def eb_constructor_def getDerivedStateFromError_def)





text \<open>
  C7. The five tiers get five different styles, and a string that names no own property
  and no member of \<open>Object.prototype\<close> gets the style of \<open>none\<close>. A string that names a
  member of \<open>Object.prototype\<close> is not covered by the fallback: for \<open>constructor\<close> both
  functions return the inherited member, not a style.
\<close>

theorem quality_badge_inherited_key:
  "getQualityBadge ''constructor'' = Inherited ''constructor''
   \<and> getQualityColor ''constructor'' = Inherited ''constructor''
   \<and> getQualityBadge ''none'' = StringValue ''bg-red-100 text-red-800''
   \<and> getQualityColor ''none'' = StringValue ''text-red-600 bg-red-100''
   \<and> getQualityBadge ''unknown'' = getQualityBadge ''none''
   \<and> getQualityColor ''unknown'' = getQualityColor ''none''"
  by (simp add: getQualityBadge_def getQualityColor_def js_get_def badge_colors_def
      quality_colors_def object_prototype_keys_def)


text \<open>
  C8, as the code has it. When no username is present or the stored enhancement is
  truthy (as every plan object is), \<open>handleLoadEnhancement\<close> changes nothing and makes no
  request. Hence no request is ever started when there is no username, nor after a
  truthy enhancement has been stored with no call left in flight; and
  \<open>showEnhancement\<close>, once true, stays true. When a username is present, the stored
  enhancement is not truthy and no call is in flight, a click starts exactly one
  request, for that username, and changes nothing else.
\<close>

theorem handleLoadEnhancement_frame:
  "(no_username (component w) \<or> truthy (enhancement (component w))
      \<longrightarrow> handleLoadEnhancement w = w)
   \<and> (no_username (component w) \<or> (truthy (enhancement (component w)) \<and> in_flight w = 0)
      \<longrightarrow> requests (foldl dashboard_step w evs) = requests w)
   \<and> (showEnhancement (component w)
      \<longrightarrow> showEnhancement (component (foldl dashboard_step w evs)))
   \<and> (username (component w) = Some u \<and> u \<noteq> [] \<and> \<not> truthy (enhancement (component w))
        \<and> in_flight w = 0
      \<longrightarrow> handleLoadEnhancement w = w\<lparr>requests := requests w @ [u], in_flight := 1\<rparr>)"
  using handleLoadEnhancement_guard [of w] dashboard_run_no_username [of w evs]
    dashboard_run_settled [of w evs] dashboard_run_shown [of w evs]
    handleLoadEnhancement_starts [of w u]
  by auto

theorem handleLoadEnhancement_frame_witness:
  "enhancement (component (foldl dashboard_step
       (initial_dashboard (Some ''octocat'') :: unit world) [Click, Returned example_plan]))
     = example_plan
   \<and> handleLoadEnhancement (foldl dashboard_step
       (initial_dashboard (Some ''octocat'') :: unit world) [Click, Returned example_plan])
     = foldl dashboard_step (initial_dashboard (Some ''octocat'')) [Click, Returned example_plan]
   \<and> requests (foldl dashboard_step (foldl dashboard_step
       (initial_dashboard (Some ''octocat'') :: unit world) [Click, Returned example_plan])
       [Click, Threw, Click]) = [''octocat'']
   \<and> showEnhancement (component (foldl dashboard_step (foldl dashboard_step
       (initial_dashboard (Some ''octocat'') :: unit world) [Click, Returned example_plan])
       [Click, Threw, Click]))
   \<and> handleLoadEnhancement (initial_dashboard None :: unit world) = initial_dashboard None
   \<and> handleLoadEnhancement (initial_dashboard (Some ''octocat'') :: unit world)
     = (initial_dashboard (Some ''octocat''))\<lparr>requests := [''octocat''], in_flight := 1\<rparr>"
proof -
  let ?w0 = "initial_dashboard (Some ''octocat'') :: unit world"
  let ?w1 = "foldl dashboard_step ?w0 [Click, Returned example_plan]"
  have w1: "?w1 = ?w0\<lparr>component := (component ?w0)\<lparr>enhancement := example_plan,
      showEnhancement := True\<rparr>, requests := [''octocat'']\<rparr>"
    by (simp add: initial_dashboard_def handleLoadEnhancement_def
        handleLoadEnhancement_returned_def)
  have t: "truthy example_plan"
    by (simp add: example_plan_def)
  have loaded: "truthy (enhancement (component ?w1))" "in_flight ?w1 = 0"
    "showEnhancement (component ?w1)" "requests ?w1 = [''octocat'']"
    "enhancement (component ?w1) = example_plan"
    unfolding w1 by (simp_all add: t initial_dashboard_def)
  have a: "handleLoadEnhancement ?w1 = ?w1
      \<and> requests (foldl dashboard_step ?w1 [Click, Threw, Click]) = requests ?w1
      \<and> showEnhancement (component (foldl dashboard_step ?w1 [Click, Threw, Click]))"
    using handleLoadEnhancement_frame [of ?w1 "[Click, Threw, Click]" "''octocat''"] loaded
    by simp
  have b: "handleLoadEnhancement (initial_dashboard None :: unit world) = initial_dashboard None"
    using handleLoadEnhancement_frame [of "initial_dashboard None :: unit world" "[]" "[]"]
    by (simp add: initial_dashboard_def no_username_def)
  have c: "handleLoadEnhancement ?w0 = ?w0\<lparr>requests := requests ?w0 @ [''octocat''], in_flight := 1\<rparr>"
    using handleLoadEnhancement_frame [of ?w0 "[]" "''octocat''"]
    by (simp add: initial_dashboard_def)
  then have c': "handleLoadEnhancement ?w0 = ?w0\<lparr>requests := [''octocat''], in_flight := 1\<rparr>"
    by (simp add: initial_dashboard_def)
  show ?thesis
    using a b c' loaded by simp
qed

text \<open>
  C8 as stated fails: one mounted dashboard can fetch the plan more than once. A click
  after a failed call fetches again; two clicks before the first response make two
  calls, both of which set the plan; and an enhancement that is not null but falsy
  (the body \<open>0\<close>) does not stop the next click from fetching.
\<close>

theorem enhancement_fetched_twice_counterexample:
  "requests (foldl dashboard_step (initial_dashboard (Some ''octocat'') :: unit world)
       [Click, Threw, Click]) = [''octocat'', ''octocat'']
   \<and> requests (foldl dashboard_step (initial_dashboard (Some ''octocat'') :: unit world)
       [Click, Click, Returned example_plan, Returned (JObj [])]) = [''octocat'', ''octocat'']
   \<and> enhancement (component (foldl dashboard_step
       (initial_dashboard (Some ''octocat'') :: unit world)
       [Click, Click, Returned example_plan])) = example_plan
   \<and> enhancement (component (foldl dashboard_step
       (initial_dashboard (Some ''octocat'') :: unit world)
       [Click, Click, Returned example_plan, Returned (JObj [])])) = JObj []
   \<and> enhancement (component (foldl dashboard_step
       (initial_dashboard (Some ''octocat'') :: unit world)
       [Click, Returned (JNum True ''0'')])) = JNum True ''0''
   \<and> requests (foldl dashboard_step (initial_dashboard (Some ''octocat'') :: unit world)
       [Click, Returned (JNum True ''0''), Click]) = [''octocat'', ''octocat'']"
  by (simp add: initial_dashboard_def handleLoadEnhancement_def
      handleLoadEnhancement_returned_def handleLoadEnhancement_threw_def example_plan_def)

text \<open>
  C9, as the code has it. When the byte counts are non-negative integers with a
  positive sum of at most \<open>2^53\<close> (so that the doubles add without rounding), the total
  is their sum, and every row shows the language's byte count divided by the sum, times
  100, each operation rounded to the nearest double, printed with one decimal; that
  number is finite. An empty mapping gives no rows.
\<close>

theorem language_percentage_finite:
  assumes "0 < sum_list (map snd counts)" and "sum_list (map snd counts) \<le> 2 ^ 53"
  shows "totalLanguageBytes (of_counts counts) = Finite (of_nat (sum_list (map snd counts)))
    \<and> (\<forall>(lang, n)\<in>set counts.
          js_times_100 (js_divide (Finite (of_nat n)) (totalLanguageBytes (of_counts counts)))
          = Finite (round53 (round53 (of_nat n / of_nat (sum_list (map snd counts))) * 100)))
    \<and> language_rows (of_counts counts)
      = map (\<lambda>(lang, n). (lang, Text (one_decimal
          (round53 (round53 (of_nat n / of_nat (sum_list (map snd counts))) * 100))))) counts
    \<and> language_rows [] = []"
proof -
  let ?t = "sum_list (map snd counts)"
  have total: "totalLanguageBytes (of_counts counts) = Finite (of_nat ?t)"
    using assms(2) by (rule total_of_counts)
  have part: "n \<le> ?t" if "(lang, n) \<in> set counts" for lang n
  proof -
    from that show ?thesis
      by (induction counts) auto
  qed
  have vals: "\<forall>(lang, n)\<in>set counts.
      js_times_100 (js_divide (Finite (of_nat n)) (totalLanguageBytes (of_counts counts)))
      = Finite (round53 (round53 (of_nat n / of_nat ?t) * 100))"
  proof (rule ballI)
    fix x assume x: "x \<in> set counts"
    obtain lang n where xn: "x = (lang, n)"
      by (cases x)
    from x have "n \<le> ?t"
      unfolding xn by (rule part)
    then have "js_times_100 (js_divide (Finite (of_nat n)) (Finite (of_nat ?t)))
        = Finite (round53 (round53 (of_nat n / of_nat ?t) * 100))"
      using assms(1) by (rule percentage_of_part(1))
    then show "case x of (lang, n) \<Rightarrow>
        js_times_100 (js_divide (Finite (of_nat n)) (totalLanguageBytes (of_counts counts)))
        = Finite (round53 (round53 (of_nat n / of_nat ?t) * 100))"
      unfolding xn total by (simp only: prod.case)
  qed
  have "language_rows (of_counts counts)
      = map (\<lambda>(lang, n). (lang, percentage (Finite (of_nat n)) (Finite (of_nat ?t)))) counts"
    unfolding language_rows_def total by (simp add: of_counts_def comp_def case_prod_beta)
  also have "\<dots> = map (\<lambda>(lang, n). (lang, Text (one_decimal
          (round53 (round53 (of_nat n / of_nat ?t) * 100))))) counts"
  proof (rule map_cong [OF refl])
    fix x assume x: "x \<in> set counts"
    obtain lang n where xn: "x = (lang, n)"
      by (cases x)
    from x have "n \<le> ?t"
      unfolding xn by (rule part)
    then have "percentage (Finite (of_nat n)) (Finite (of_nat ?t))
        = Text (one_decimal (round53 (round53 (of_nat n / of_nat ?t) * 100)))"
      using assms(1) by (rule percentage_of_part(2))
    then show "(case x of (lang, n) \<Rightarrow> (lang, percentage (Finite (of_nat n)) (Finite (of_nat ?t))))
        = (case x of (lang, n) \<Rightarrow> (lang, Text (one_decimal
            (round53 (round53 (of_nat n / of_nat ?t) * 100)))))"
      unfolding xn by (simp only: prod.case)
  qed
  finally have rows: "language_rows (of_counts counts)
      = map (\<lambda>(lang, n). (lang, Text (one_decimal
          (round53 (round53 (of_nat n / of_nat ?t) * 100))))) counts" .
  have "language_rows [] = []"
    by (simp add: language_rows_def)
  with total vals rows show ?thesis
    by (intro conjI)
qed

theorem language_percentage_finite_witness:
  "language_rows (of_counts [(''Python'', 300), (''Shell'', 100)])
     = [(''Python'', Text ''75.0''), (''Shell'', Text ''25.0'')]
   \<and> language_rows (of_counts [(''TypeScript'', 2), (''CSS'', 1)])
     = [(''TypeScript'', Text ''66.7''), (''CSS'', Text ''33.3'')]
   \<and> totalLanguageBytes (of_counts [(''TypeScript'', 2), (''CSS'', 1)]) = Finite 3"
proof -
  have a: "round53 (round53 (300 / 400) * 100) = 75" "round53 (round53 (100 / 400) * 100) = 25"
    by code_simp+
  have b: "one_decimal 75 = ''75.0''" "one_decimal 25 = ''25.0''"
    by code_simp+
  have c: "one_decimal (round53 (round53 (2 / 3) * 100)) = ''66.7''"
    "one_decimal (round53 (round53 (1 / 3) * 100)) = ''33.3''"
    by code_simp+
  show ?thesis
    using language_percentage_finite [of "[(''Python'', 300), (''Shell'', 100)]"]
      language_percentage_finite [of "[(''TypeScript'', 2), (''CSS'', 1)]"] a b c
    by simp
qed

text \<open>
  C9 as stated fails: a mapping that is not empty but whose byte counts are all zero
  divides zero by zero, and the row shows \<open>NaN\<close>.
\<close>

theorem language_percentage_zero_total_counterexample:
  "totalLanguageBytes [(''Python'', Finite 0)] = Finite 0
   \<and> js_times_100 (js_divide (Finite 0) (totalLanguageBytes [(''Python'', Finite 0)])) = NaN
   \<and> language_rows [(''Python'', Finite 0)] = [(''Python'', Text ''NaN'')]"
  by (simp add: language_rows_def percentage_def totalLanguageBytes_def fl_def round53_def)

text \<open>
  C6. Running the template generator on its own output gives an empty improvements
  list, for every catalog, README text and repository name: the output contains every
  heading of the catalog.
\<close>

theorem readme_generator_idempotent:
  "improvements (generate_readme catalog
      (enhanced_readme (generate_readme catalog content repo_name)) repo_name') = []"
  by (simp add: generate_readme_def [of catalog "enhanced_readme _"] missing_sections_def
      generated_has_every_heading)

theorem readme_generator_idempotent_witness:
  "length (improvements (generate_readme canonical_catalog [] ''foo'')) = 6
   \<and> improvements (generate_readme canonical_catalog
        (enhanced_readme (generate_readme canonical_catalog [] ''foo'')) ''foo'') = []"
proof -
  have "length (improvements (generate_readme canonical_catalog [] ''foo'')) = 6"
    by code_simp
  then show ?thesis
    using readme_generator_idempotent [of canonical_catalog "[]" "''foo''" "''foo''"]
    by simp
qed





text \<open>
  C4. For every portfolio report the potential score of the enhancement plan is at
  least its current score. This follows from the simulation alone: raising a factor to
  its good cutoff cannot lower a weighted sum with non-negative weights, nor the mean
  of the clamped sums, nor the bounded total; the plan takes no maximum with the
  current score.
\<close>

theorem potential_score_at_least_current:
  "current_score (enhancement_plan b r) \<le> potential_score (enhancement_plan b r)"
proof -
  have reps: "repositories (simulate r) = map (map raise_factor) (repositories r)"
    by (simp add: simulate_def)
  have "mean_score (map health_of (repositories r))
      \<le> mean_score (map health_of (repositories (simulate r)))"
    unfolding reps by (rule mean_score_raise)
  then have "mean_score (map health_of (repositories r)) + profile_bonus b r
      \<le> mean_score (map health_of (repositories (simulate r))) + profile_bonus b (simulate r)"
    by (simp add: profile_bonus_simulate)
  then have "overall_score b r \<le> overall_score b (simulate r)"
    unfolding overall_score_def by (rule clamp_score_mono)
  then show ?thesis
    by (simp add: enhancement_plan_def)
qed

theorem potential_score_at_least_current_witness:
  "current_score (enhancement_plan example_bonus example_report) = 25
   \<and> potential_score (enhancement_plan example_bonus example_report) = 65
   \<and> current_score (enhancement_plan example_bonus example_report)
     \<le> potential_score (enhancement_plan example_bonus example_report)"
proof -
  have "current_score (enhancement_plan example_bonus example_report) = 25"
    by code_simp
  moreover have "potential_score (enhancement_plan example_bonus example_report) = 65"
    by code_simp
  ultimately show ?thesis
    using potential_score_at_least_current [of example_bonus example_report] by simp
qed

end
